theory Spec2Isabelle
  imports Main "HOL-Library.AList"
begin

section \<open>The device model (src/models/device.py)\<close>

text \<open>
  A Python string is a sequence of Unicode code points; \<open>py\<close> gives the Python string of an
  ASCII literal. A UUID is an opaque token that the code only compares and uses as a
  dictionary key. A \<open>datetime\<close> is a point on a totally ordered time line. An IP address
  object stays a type parameter \<open>'ip\<close>: the repository only ever applies Python's \<open>str()\<close>
  to it, and that function of the standard library is the parameter \<open>str\<close> of every
  operation below.
\<close>

type_synonym pystr = "nat list"
type_synonym uuid = nat
type_synonym datetime = int

definition py :: "string \<Rightarrow> pystr" where
  "py s = map of_char s"

datatype DevicePlatform = IOS_XE | IOS_XR | NXOS | EOS | JUNOS

datatype DeviceRole = SPINE | LEAF | BORDER | CORE | ACCESS | WAN

text \<open>The \<open>.value\<close> of a member of the two string enumerations.\<close>

fun platform_value :: "DevicePlatform \<Rightarrow> pystr" where
  "platform_value IOS_XE = py ''ios_xe''"
| "platform_value IOS_XR = py ''ios_xr''"
| "platform_value NXOS = py ''nxos''"
| "platform_value EOS = py ''eos''"
| "platform_value JUNOS = py ''junos''"

fun role_value :: "DeviceRole \<Rightarrow> pystr" where
  "role_value SPINE = py ''spine''"
| "role_value LEAF = py ''leaf''"
| "role_value BORDER = py ''border''"
| "role_value CORE = py ''core''"
| "role_value ACCESS = py ''access''"
| "role_value WAN = py ''wan''"

text \<open>
  A \<open>Device\<close> object as it exists at run time. The constructor validates its fields, but
  \<open>model_copy(update=...)\<close> does not, so the five payload fields of a stored device can
  hold \<open>None\<close>; the identity and the timestamps are never in an update and always present.
\<close>

record 'ip Device =
  dev_id :: uuid
  hostname :: "pystr option"
  management_ip :: "'ip option"
  platform :: "DevicePlatform option"
  role :: "DeviceRole option"
  site :: "pystr option"
  created_at :: datetime
  updated_at :: datetime

text \<open>
  \<open>DeviceCreate\<close>: the five payload fields, all required, no identity and no timestamps.
  The class sets no \<open>model_config\<close>, so its strings are kept as they were given.
\<close>

record 'ip DeviceCreate =
  c_hostname :: pystr
  c_management_ip :: 'ip
  c_platform :: DevicePlatform
  c_role :: DeviceRole
  c_site :: pystr

text \<open>
  \<open>DeviceUpdate\<close>: every field is optional with default \<open>None\<close>, and the object remembers
  which fields the caller set. A field is \<open>Unset\<close> when the caller did not mention it and
  \<open>Given v\<close> when the caller passed \<open>v\<close>, which may be \<open>None\<close>:
  \<open>model_dump(exclude_unset=True)\<close> keeps exactly the \<open>Given\<close> fields.
\<close>

datatype 'a field = Unset | Given "'a option"

record 'ip DeviceUpdate =
  u_hostname :: "pystr field"
  u_management_ip :: "'ip field"
  u_platform :: "DevicePlatform field"
  u_role :: "DeviceRole field"
  u_site :: "pystr field"

text \<open>The \<open>Field\<close> constraints that a payload object has passed when it was built.\<close>

definition valid_create :: "'ip DeviceCreate \<Rightarrow> bool" where
  "valid_create device_data \<longleftrightarrow>
     1 \<le> length (c_hostname device_data) \<and> length (c_hostname device_data) \<le> 253 \<and>
     1 \<le> length (c_site device_data) \<and> length (c_site device_data) \<le> 100"

definition valid_update :: "'ip DeviceUpdate \<Rightarrow> bool" where
  "valid_update update_data \<longleftrightarrow>
     (case u_hostname update_data of
        Given (Some h) \<Rightarrow> 1 \<le> length h \<and> length h \<le> 253 | _ \<Rightarrow> True) \<and>
     (case u_site update_data of
        Given (Some s) \<Rightarrow> 1 \<le> length s \<and> length s \<le> 100 | _ \<Rightarrow> True)"

subsection \<open>Constructing a Device\<close>

text \<open>
  \<open>Device\<close> sets \<open>str_strip_whitespace\<close>: when a \<open>Device\<close> is constructed, \<open>hostname\<close> and
  \<open>site\<close> lose their leading and trailing whitespace, and the length bounds are checked on
  what is left. Whitespace is the set of code points with the Unicode property White_Space.
  A failed bound raises the validation error of the model layer.
\<close>

definition is_space :: "nat \<Rightarrow> bool" where
  "is_space c \<longleftrightarrow>
     c \<in> set [0x09, 0x0A, 0x0B, 0x0C, 0x0D, 0x20, 0x85, 0xA0, 0x1680,
              0x2000, 0x2001, 0x2002, 0x2003, 0x2004, 0x2005, 0x2006, 0x2007, 0x2008, 0x2009,
              0x200A, 0x2028, 0x2029, 0x202F, 0x205F, 0x3000]"

definition strip :: "pystr \<Rightarrow> pystr" where
  "strip s = rev (dropWhile is_space (rev (dropWhile is_space s)))"

text \<open>
  The exceptions: \<open>DuplicateDeviceError(field, value)\<close>, the validation error of the model
  layer with the names of the fields that failed, \<open>KeyError\<close> with the missing dictionary
  key, and \<open>AttributeError\<close> with the name of the attribute that \<open>None\<close> does not have.
\<close>

datatype error =
  DuplicateDeviceError pystr "pystr option"
| ValidationError "pystr list"
| KeyError "pystr option"
| AttributeError pystr

definition new_Device ::
  "uuid \<Rightarrow> datetime \<Rightarrow> datetime \<Rightarrow> pystr \<Rightarrow> 'ip \<Rightarrow> DevicePlatform \<Rightarrow> DeviceRole \<Rightarrow> pystr
     \<Rightarrow> error + 'ip Device" where
  "new_Device uid now_created now_updated h ip p ro s =
     (let h' = strip h;
          s' = strip s;
          errors = (if length h' < 1 \<or> 253 < length h' then [py ''hostname''] else []) @
                   (if length s' < 1 \<or> 100 < length s' then [py ''site''] else [])
      in if errors \<noteq> [] then Inl (ValidationError errors)
         else Inr \<lparr>dev_id = uid, hostname = Some h', management_ip = Some ip, platform = Some p,
                   role = Some ro, site = Some s', created_at = now_created,
                   updated_at = now_updated\<rparr>)"

text \<open>
  \<open>updates = update_data.model_dump(exclude_unset=True)\<close> is empty when no field was set.
  \<open>existing.model_copy(update=updates)\<close> is a copy with the fields of \<open>updates\<close> replaced,
  \<open>updated_at\<close> among them, and nothing validated again.
\<close>

definition no_updates :: "'ip DeviceUpdate \<Rightarrow> bool" where
  "no_updates update_data \<longleftrightarrow>
     u_hostname update_data = Unset \<and> u_management_ip update_data = Unset \<and>
     u_platform update_data = Unset \<and> u_role update_data = Unset \<and> u_site update_data = Unset"

definition model_copy :: "'ip Device \<Rightarrow> 'ip DeviceUpdate \<Rightarrow> datetime \<Rightarrow> 'ip Device" where
  "model_copy existing update_data now =
     existing\<lparr>hostname := (case u_hostname update_data of Unset \<Rightarrow> hostname existing | Given v \<Rightarrow> v),
              management_ip := (case u_management_ip update_data of
                                  Unset \<Rightarrow> management_ip existing | Given v \<Rightarrow> v),
              platform := (case u_platform update_data of Unset \<Rightarrow> platform existing | Given v \<Rightarrow> v),
              role := (case u_role update_data of Unset \<Rightarrow> role existing | Given v \<Rightarrow> v),
              site := (case u_site update_data of Unset \<Rightarrow> site existing | Given v \<Rightarrow> v),
              updated_at := now\<rparr>"

text \<open>Python's \<open>str()\<close> of a \<open>management_ip\<close> attribute, which is an address or \<open>None\<close>.\<close>

definition py_str :: "('ip \<Rightarrow> pystr) \<Rightarrow> 'ip option \<Rightarrow> pystr" where
  "py_str str v = (case v of None \<Rightarrow> py ''None'' | Some ip \<Rightarrow> str ip)"

section \<open>The in-memory repository (src/repositories/memory.py)\<close>

text \<open>
  The primary dictionary keeps its insertion order (\<open>get_all\<close> and \<open>filter_by\<close> walk it), so
  it is an association list: assignment replaces in place or appends, \<open>del\<close> removes. The two
  indexes are only looked up, so they are maps; a key of the hostname index is whatever a
  \<open>hostname\<close> attribute holds.
\<close>

record 'ip repo =
  devices :: "(uuid \<times> 'ip Device) list"
  hostname_index :: "pystr option \<rightharpoonup> uuid"
  ip_index :: "pystr \<rightharpoonup> uuid"

definition init :: "'ip repo" where
  "init = \<lparr>devices = [], hostname_index = Map.empty, ip_index = Map.empty\<rparr>"

text \<open>
  Every method takes the repository and returns its result with the repository after the
  call. A raised exception is the \<open>Inl\<close> of the result; the repository beside it is what the
  exception leaves behind. \<open>uid\<close>, \<open>now_created\<close> and \<open>now_updated\<close> are what \<open>uuid4()\<close> and
  the two calls of \<open>datetime.now()\<close> return while the \<open>Device\<close> is built.
\<close>

definition add ::
  "('ip \<Rightarrow> pystr) \<Rightarrow> uuid \<Rightarrow> datetime \<Rightarrow> datetime \<Rightarrow> 'ip DeviceCreate \<Rightarrow> 'ip repo
     \<Rightarrow> (error + 'ip Device) \<times> 'ip repo" where
  "add str uid now_created now_updated device_data self =
     (if Some (c_hostname device_data) \<in> dom (hostname_index self)
      then (Inl (DuplicateDeviceError (py ''hostname'') (Some (c_hostname device_data))), self)
      else let ip_str = str (c_management_ip device_data) in
        if ip_str \<in> dom (ip_index self)
        then (Inl (DuplicateDeviceError (py ''management_ip'') (Some ip_str)), self)
        else (case new_Device uid now_created now_updated (c_hostname device_data)
                     (c_management_ip device_data) (c_platform device_data)
                     (c_role device_data) (c_site device_data) of
                Inl e \<Rightarrow> (Inl e, self)
              | Inr device \<Rightarrow>
                  (Inr device,
                   self\<lparr>devices := AList.update (dev_id device) device (devices self),
                        hostname_index := (hostname_index self)(hostname device \<mapsto> dev_id device),
                        ip_index := (ip_index self)
                                      (py_str str (management_ip device) \<mapsto> dev_id device)\<rparr>)))"

definition get_by_id :: "uuid \<Rightarrow> 'ip repo \<Rightarrow> 'ip Device option \<times> 'ip repo" where
  "get_by_id device_id self = (map_of (devices self) device_id, self)"

definition get_by_hostname :: "pystr \<Rightarrow> 'ip repo \<Rightarrow> 'ip Device option \<times> 'ip repo" where
  "get_by_hostname h self =
     (case hostname_index self (Some h) of
        None \<Rightarrow> (None, self)
      | Some device_id \<Rightarrow> (map_of (devices self) device_id, self))"

definition get_all :: "'ip repo \<Rightarrow> 'ip Device list \<times> 'ip repo" where
  "get_all self = (map snd (devices self), self)"

text \<open>
  The block \<open>if new != old: del index[old]; index[new] = device_id\<close> that \<open>update\<close> runs on
  each index. \<open>del\<close> of a missing key raises \<open>KeyError\<close>: the result is \<open>None\<close> then.
\<close>

definition reindex :: "'k \<Rightarrow> 'k \<Rightarrow> uuid \<Rightarrow> ('k \<rightharpoonup> uuid) \<Rightarrow> ('k \<rightharpoonup> uuid) option" where
  "reindex old new device_id index =
     (if new \<noteq> old
      then (if old \<in> dom index then Some ((index(old := None))(new \<mapsto> device_id)) else None)
      else Some index)"

definition update ::
  "('ip \<Rightarrow> pystr) \<Rightarrow> datetime \<Rightarrow> uuid \<Rightarrow> 'ip DeviceUpdate \<Rightarrow> 'ip repo
     \<Rightarrow> (error + 'ip Device option) \<times> 'ip repo" where
  "update str now device_id update_data self =
     (case map_of (devices self) device_id of
        None \<Rightarrow> (Inr None, self)
      | Some existing \<Rightarrow>
          if no_updates update_data then (Inr (Some existing), self)
          else if (case u_hostname update_data of
                     Unset \<Rightarrow> False
                   | Given h \<Rightarrow> h \<noteq> hostname existing \<and> h \<in> dom (hostname_index self))
          then (Inl (DuplicateDeviceError (py ''hostname'')
                       (case u_hostname update_data of Given h \<Rightarrow> h | Unset \<Rightarrow> None)), self)
          else if (case u_management_ip update_data of
                     Unset \<Rightarrow> False
                   | Given ip \<Rightarrow> py_str str ip \<noteq> py_str str (management_ip existing) \<and>
                                py_str str ip \<in> dom (ip_index self))
          then (Inl (DuplicateDeviceError (py ''management_ip'')
                       (case u_management_ip update_data of
                          Given ip \<Rightarrow> Some (py_str str ip) | Unset \<Rightarrow> None)), self)
          else
            let updated_device = model_copy existing update_data now in
            (case reindex (hostname existing) (hostname updated_device) device_id
                    (hostname_index self) of
               None \<Rightarrow> (Inl (KeyError (hostname existing)), self)
             | Some hidx \<Rightarrow>
                 (case reindex (py_str str (management_ip existing))
                         (py_str str (management_ip updated_device)) device_id (ip_index self) of
                    None \<Rightarrow> (Inl (KeyError (Some (py_str str (management_ip existing)))),
                             self\<lparr>hostname_index := hidx\<rparr>)
                  | Some iidx \<Rightarrow>
                      (Inr (Some updated_device),
                       self\<lparr>devices := AList.update device_id updated_device (devices self),
                            hostname_index := hidx, ip_index := iidx\<rparr>))))"

definition delete :: "('ip \<Rightarrow> pystr) \<Rightarrow> uuid \<Rightarrow> 'ip repo \<Rightarrow> (error + bool) \<times> 'ip repo" where
  "delete str device_id self =
     (case map_of (devices self) device_id of
        None \<Rightarrow> (Inr False, self)
      | Some device \<Rightarrow>
          let self1 = self\<lparr>devices := AList.delete device_id (devices self)\<rparr> in
          if hostname device \<notin> dom (hostname_index self1)
          then (Inl (KeyError (hostname device)), self1)
          else
            let self2 = self1\<lparr>hostname_index := (hostname_index self1)(hostname device := None)\<rparr> in
            if py_str str (management_ip device) \<notin> dom (ip_index self2)
            then (Inl (KeyError (Some (py_str str (management_ip device)))), self2)
            else (Inr True,
                  self2\<lparr>ip_index := (ip_index self2)(py_str str (management_ip device) := None)\<rparr>))"

text \<open>
  The loop of \<open>filter_by\<close> over \<open>self._devices.values()\<close>: each \<open>continue\<close> skips the device,
  the last line appends it to \<open>results\<close>. The criteria are optional strings. When a platform
  or role criterion is supplied, \<open>device.platform.value\<close> or \<open>device.role.value\<close> is read,
  which raises \<open>AttributeError\<close> on a device whose attribute is \<open>None\<close>.
\<close>

fun filter_loop ::
  "pystr option \<Rightarrow> pystr option \<Rightarrow> pystr option \<Rightarrow> 'ip Device list \<Rightarrow> 'ip Device list
     \<Rightarrow> error + 'ip Device list" where
  "filter_loop p ro s [] results = Inr results"
| "filter_loop p ro s (device # rest) results =
     (if p \<noteq> None \<and> platform device = None then Inl (AttributeError (py ''value''))
      else if p \<noteq> None \<and> map_option platform_value (platform device) \<noteq> p
      then filter_loop p ro s rest results
      else if ro \<noteq> None \<and> role device = None then Inl (AttributeError (py ''value''))
      else if ro \<noteq> None \<and> map_option role_value (role device) \<noteq> ro
      then filter_loop p ro s rest results
      else if s \<noteq> None \<and> site device \<noteq> s then filter_loop p ro s rest results
      else filter_loop p ro s rest (results @ [device]))"

definition filter_by ::
  "pystr option \<Rightarrow> pystr option \<Rightarrow> pystr option \<Rightarrow> 'ip repo
     \<Rightarrow> (error + 'ip Device list) \<times> 'ip repo" where
  "filter_by p ro s self = (filter_loop p ro s (map snd (devices self)) [], self)"

text \<open>
  What the contract asks of \<open>filter_by\<close>, in its own words: a device satisfies the criteria
  when each one that was supplied equals the value of the device's field.
\<close>

definition satisfies :: "pystr option \<Rightarrow> pystr option \<Rightarrow> pystr option \<Rightarrow> 'ip Device \<Rightarrow> bool" where
  "satisfies p ro s device \<longleftrightarrow>
     (case p of None \<Rightarrow> True | Some v \<Rightarrow> map_option platform_value (platform device) = Some v) \<and>
     (case ro of None \<Rightarrow> True | Some v \<Rightarrow> map_option role_value (role device) = Some v) \<and>
     (case s of None \<Rightarrow> True | Some v \<Rightarrow> site device = Some v)"

text \<open>A device is typed when its platform and its role are members of their enumerations.\<close>

definition typed :: "'ip Device \<Rightarrow> bool" where
  "typed device \<longleftrightarrow> platform device \<noteq> None \<and> role device \<noteq> None"

section \<open>The lockstep invariant and reachable repositories\<close>

text \<open>
  \<open>indexes key m index\<close>: the index maps \<open>k\<close> to \<open>i\<close> exactly when the primary store \<open>m\<close> holds
  under \<open>i\<close> a device whose key is \<open>k\<close>. \<open>lockstep\<close> says so of both indexes, and that the
  primary dictionary has each key once and stores every device under its own identity.
\<close>

definition indexes :: "('d \<Rightarrow> 'k) \<Rightarrow> (uuid \<rightharpoonup> 'd) \<Rightarrow> ('k \<rightharpoonup> uuid) \<Rightarrow> bool" where
  "indexes key m index \<longleftrightarrow> (\<forall>k i. index k = Some i \<longleftrightarrow> (\<exists>d. m i = Some d \<and> key d = k))"

definition lockstep :: "('ip \<Rightarrow> pystr) \<Rightarrow> 'ip repo \<Rightarrow> bool" where
  "lockstep str r \<longleftrightarrow>
     distinct (map fst (devices r)) \<and>
     (\<forall>i d. map_of (devices r) i = Some d \<longrightarrow> dev_id d = i) \<and>
     indexes hostname (map_of (devices r)) (hostname_index r) \<and>
     indexes (\<lambda>d. py_str str (management_ip d)) (map_of (devices r)) (ip_index r)"

text \<open>
  The repositories that a sequence of \<open>add\<close>, \<open>update\<close> and \<open>delete\<close> calls builds from the
  empty one. The payloads are objects of the model layer, so they satisfy their \<open>Field\<close>
  constraints; \<open>issued\<close> is the set of identities that \<open>uuid4()\<close> has returned so far, and
  \<open>uuid4()\<close> never returns an identity twice.
\<close>

inductive reachable :: "('ip \<Rightarrow> pystr) \<Rightarrow> uuid set \<Rightarrow> 'ip repo \<Rightarrow> bool" for str where
  start: "reachable str {} init"
| after_add:
    "reachable str issued r \<Longrightarrow> uid \<notin> issued \<Longrightarrow> valid_create device_data \<Longrightarrow>
     reachable str (insert uid issued) (snd (add str uid now_created now_updated device_data r))"
| after_update:
    "reachable str issued r \<Longrightarrow> valid_update update_data \<Longrightarrow>
     reachable str issued (snd (update str now device_id update_data r))"
| after_delete:
    "reachable str issued r \<Longrightarrow> reachable str issued (snd (delete str device_id r))"

section \<open>A concrete inventory\<close>

text \<open>
  The devices of the unit tests, with addresses given by their canonical text, so that
  \<open>str\<close> of an address is the Python string of that text.
\<close>

definition text_ip :: "string \<Rightarrow> pystr" where
  "text_ip a = py a"

definition spine1 :: "string DeviceCreate" where
  "spine1 = \<lparr>c_hostname = py ''spine1'', c_management_ip = ''10.0.0.1'', c_platform = EOS,
             c_role = SPINE, c_site = py ''dc1''\<rparr>"

definition leaf1 :: "string DeviceCreate" where
  "leaf1 = \<lparr>c_hostname = py ''leaf1'', c_management_ip = ''10.0.0.3'', c_platform = NXOS,
            c_role = LEAF, c_site = py ''dc1''\<rparr>"

definition spine1_device :: "string Device" where
  "spine1_device = \<lparr>dev_id = 1, hostname = Some (py ''spine1''), management_ip = Some ''10.0.0.1'',
                    platform = Some EOS, role = Some SPINE, site = Some (py ''dc1''),
                    created_at = 100, updated_at = 100\<rparr>"

definition leaf1_device :: "string Device" where
  "leaf1_device = \<lparr>dev_id = 2, hostname = Some (py ''leaf1''), management_ip = Some ''10.0.0.3'',
                   platform = Some NXOS, role = Some LEAF, site = Some (py ''dc1''),
                   created_at = 200, updated_at = 200\<rparr>"

definition repo1 :: "string repo" where
  "repo1 = snd (add text_ip 1 100 100 spine1 init)"

definition repo2 :: "string repo" where
  "repo2 = snd (add text_ip 2 200 200 leaf1 repo1)"

definition unset :: "string DeviceUpdate" where
  "unset = \<lparr>u_hostname = Unset, u_management_ip = Unset, u_platform = Unset, u_role = Unset,
            u_site = Unset\<rparr>"

text \<open>
  A device renamed by \<open>update\<close> to a hostname that is one space.
\<close>

definition blank_hostname :: "string DeviceUpdate" where
  "blank_hostname = unset\<lparr>u_hostname := Given (Some (py '' ''))\<rparr>"

definition repo_blank :: "string repo" where
  "repo_blank = snd (update text_ip 150 1 blank_hostname repo1)"

text \<open>
  A second creation payload whose hostname is that of \<open>spine1\<close> after a leading space; the
  repository after it is added; that repository after the second device is deleted again;
  and that one after \<open>leaf1\<close> is added with identity 3.
\<close>

definition padded :: "string DeviceCreate" where
  "padded = \<lparr>c_hostname = py '' spine1'', c_management_ip = ''10.0.0.2'', c_platform = EOS,
             c_role = SPINE, c_site = py ''dc1''\<rparr>"

definition padded_device :: "string Device" where
  "padded_device = \<lparr>dev_id = 2, hostname = Some (py ''spine1''), management_ip = Some ''10.0.0.2'',
                    platform = Some EOS, role = Some SPINE, site = Some (py ''dc1''),
                    created_at = 200, updated_at = 200\<rparr>"

definition repo_padded :: "string repo" where
  "repo_padded = snd (add text_ip 2 200 200 padded repo1)"

definition repo_orphan :: "string repo" where
  "repo_orphan = snd (add text_ip 3 300 300 leaf1 (snd (delete text_ip 2 repo_padded)))"

text \<open>
  An update payload that sets platform and role to \<open>None\<close>, and \<open>spine1\<close> after that update.
\<close>

definition no_platform_role :: "string DeviceUpdate" where
  "no_platform_role = unset\<lparr>u_platform := Given None, u_role := Given None\<rparr>"

definition repo_untyped :: "string repo" where
  "repo_untyped = snd (update text_ip 150 1 no_platform_role repo1)"

section \<open>Facts about the operations\<close>

lemma py_inject [simp]: "py a = py b \<longleftrightarrow> a = b"
  by (simp add: py_def inj_map_eq_map inj_of_char)

lemma py_length [simp]: "length (py a) = length a"
  by (simp add: py_def)

lemma py_empty [simp]: "py a = [] \<longleftrightarrow> a = []"
  by (simp add: py_def)

lemma strip_length: "length (strip s) \<le> length s"
proof -
  have "length (dropWhile is_space (rev (dropWhile is_space s))) \<le> length (rev (dropWhile is_space s))"
    by (rule length_dropWhile_le)
  also have "\<dots> \<le> length s"
    by (simp add: length_dropWhile_le)
  finally show ?thesis by (simp add: strip_def)
qed

lemma indexes_empty: "indexes key Map.empty Map.empty"
  by (simp add: indexes_def)

lemma indexes_unique:
  "indexes key m index \<Longrightarrow> m i = Some d \<Longrightarrow> m j = Some e \<Longrightarrow> key d = key e \<Longrightarrow> i = j"
  unfolding indexes_def by (metis option.inject)

lemma indexes_dom: "indexes key m index \<Longrightarrow> m i = Some d \<Longrightarrow> index (key d) = Some i"
  unfolding indexes_def by blast

lemma indexes_insert:
  assumes "indexes key m index" and "m uid = None" and "key d \<notin> dom index"
  shows "indexes key (m(uid \<mapsto> d)) (index(key d \<mapsto> uid))"
  unfolding indexes_def
proof (intro allI iffI)
  fix k i
  assume "(index(key d \<mapsto> uid)) k = Some i"
  then show "\<exists>e. (m(uid \<mapsto> d)) i = Some e \<and> key e = k"
    using assms unfolding indexes_def by (auto split: if_splits)
next
  fix k i
  assume "\<exists>e. (m(uid \<mapsto> d)) i = Some e \<and> key e = k"
  then show "(index(key d \<mapsto> uid)) k = Some i"
    using assms unfolding indexes_def by (auto split: if_splits)
qed

lemma indexes_remove:
  assumes "indexes key m index" and "m uid = Some d"
  shows "indexes key (m(uid := None)) (index(key d := None))"
  unfolding indexes_def
proof (intro allI iffI)
  fix k i
  assume "(index(key d := None)) k = Some i"
  then have k: "k \<noteq> key d" and "index k = Some i" by (auto split: if_splits)
  then obtain e where e: "m i = Some e" "key e = k"
    using assms(1) unfolding indexes_def by blast
  with k assms(2) have "i \<noteq> uid" by auto
  with e show "\<exists>e. (m(uid := None)) i = Some e \<and> key e = k" by simp
next
  fix k i
  assume "\<exists>e. (m(uid := None)) i = Some e \<and> key e = k"
  then obtain e where e: "i \<noteq> uid" "m i = Some e" "key e = k" by (auto split: if_splits)
  then have "index k = Some i" using assms(1) indexes_dom by fastforce
  moreover have "k \<noteq> key d" using indexes_unique [OF assms(1) e(2) assms(2)] e by auto
  ultimately show "(index(key d := None)) k = Some i" by simp
qed

lemma indexes_replace_same:
  assumes "indexes key m index" and "m uid = Some d" and "key d' = key d"
  shows "indexes key (m(uid \<mapsto> d')) index"
  unfolding indexes_def
proof (intro allI iffI)
  fix k i
  assume "index k = Some i"
  then obtain e where e: "m i = Some e" "key e = k"
    using assms(1) unfolding indexes_def by blast
  show "\<exists>e. (m(uid \<mapsto> d')) i = Some e \<and> key e = k"
  proof (cases "i = uid")
    case True
    with e assms show ?thesis by simp
  next
    case False
    with e show ?thesis by simp
  qed
next
  fix k i
  assume "\<exists>e. (m(uid \<mapsto> d')) i = Some e \<and> key e = k"
  then consider "i = uid" "key d' = k" | e where "i \<noteq> uid" "m i = Some e" "key e = k"
    by (auto split: if_splits)
  then show "index k = Some i"
  proof cases
    case 1
    with assms indexes_dom [OF assms(1) assms(2)] show ?thesis by simp
  next
    case 2
    then show ?thesis using indexes_dom [OF assms(1)] by blast
  qed
qed

lemma indexes_replace_changed:
  assumes "indexes key m index" and "m uid = Some d" and "key d' \<notin> dom index"
  shows "indexes key (m(uid \<mapsto> d')) ((index(key d := None))(key d' \<mapsto> uid))"
proof -
  have "indexes key (m(uid := None)) (index(key d := None))"
    using assms(1,2) by (rule indexes_remove)
  moreover have "(m(uid := None)) uid = None" by simp
  moreover have "key d' \<notin> dom (index(key d := None))" using assms(3) by auto
  ultimately have "indexes key ((m(uid := None))(uid \<mapsto> d')) ((index(key d := None))(key d' \<mapsto> uid))"
    by (rule indexes_insert)
  then show ?thesis by simp
qed

lemma add_error_unchanged: "add str uid t1 t2 data r = (Inl e, r') \<Longrightarrow> r' = r"
  by (auto simp: add_def Let_def split: if_splits sum.splits)

lemma add_result:
  assumes "add str uid t1 t2 data r = (Inr dev, r')"
  shows "Some (c_hostname data) \<notin> dom (hostname_index r)"
    and "str (c_management_ip data) \<notin> dom (ip_index r)"
    and "dev = \<lparr>dev_id = uid, hostname = Some (strip (c_hostname data)),
                 management_ip = Some (c_management_ip data), platform = Some (c_platform data),
                 role = Some (c_role data), site = Some (strip (c_site data)),
                 created_at = t1, updated_at = t2\<rparr>"
    and "r' = r\<lparr>devices := AList.update uid dev (devices r),
                 hostname_index := (hostname_index r)(hostname dev \<mapsto> uid),
                 ip_index := (ip_index r)(py_str str (management_ip dev) \<mapsto> uid)\<rparr>"
  using assms
  by (auto simp: add_def new_Device_def Let_def split: if_splits sum.splits)

lemma add_succeeds:
  assumes "valid_create data"
    and "Some (c_hostname data) \<notin> dom (hostname_index r)"
    and "str (c_management_ip data) \<notin> dom (ip_index r)"
    and "strip (c_hostname data) \<noteq> []" and "strip (c_site data) \<noteq> []"
  shows "add str uid t1 t2 data r =
     (Inr \<lparr>dev_id = uid, hostname = Some (strip (c_hostname data)),
            management_ip = Some (c_management_ip data), platform = Some (c_platform data),
            role = Some (c_role data), site = Some (strip (c_site data)),
            created_at = t1, updated_at = t2\<rparr>,
      r\<lparr>devices := AList.update uid
             \<lparr>dev_id = uid, hostname = Some (strip (c_hostname data)),
              management_ip = Some (c_management_ip data), platform = Some (c_platform data),
              role = Some (c_role data), site = Some (strip (c_site data)),
              created_at = t1, updated_at = t2\<rparr>
             (devices r),
         hostname_index := (hostname_index r)(Some (strip (c_hostname data)) \<mapsto> uid),
         ip_index := (ip_index r)(str (c_management_ip data) \<mapsto> uid)\<rparr>)"
proof -
  have "length (strip (c_hostname data)) \<le> 253" "length (strip (c_site data)) \<le> 100"
    using assms(1) strip_length [of "c_hostname data"] strip_length [of "c_site data"]
    by (simp_all add: valid_create_def)
  moreover have "1 \<le> length (strip (c_hostname data))" "1 \<le> length (strip (c_site data))"
    using assms(4,5) by (simp_all add: Suc_le_eq)
  ultimately show ?thesis
    using assms(2-5) by (simp add: add_def new_Device_def Let_def py_str_def)
qed

lemma lockstep_init: "lockstep str init"
  by (simp add: lockstep_def init_def indexes_def)

lemma map_of_None_iff: "map_of al k = None \<longleftrightarrow> k \<notin> fst ` set al"
  by (simp add: map_of_eq_None_iff)

lemma lockstep_add:
  assumes inv: "lockstep str r"
    and fresh: "uid \<notin> fst ` set (devices r)"
    and free: "Some (strip (c_hostname data)) \<notin> dom (hostname_index r)"
  shows "lockstep str (snd (add str uid t1 t2 data r))"
proof (cases "add str uid t1 t2 data r")
  case (Pair res r')
  show ?thesis
  proof (cases res)
    case (Inl e)
    with Pair have "r' = r" by (auto dest: add_error_unchanged)
    with Pair inv show ?thesis by simp
  next
    case (Inr dev)
    note res = add_result [OF Pair [unfolded Inr]]
    have none: "map_of (devices r) uid = None"
      using fresh by (simp add: map_of_None_iff)
    have h: "hostname dev \<notin> dom (hostname_index r)" using free res(3) by simp
    have i: "py_str str (management_ip dev) \<notin> dom (ip_index r)"
      using res(2,3) by (simp add: py_str_def)
    have hs: "indexes hostname (map_of (devices r)) (hostname_index r)"
      and ips: "indexes (\<lambda>d. py_str str (management_ip d)) (map_of (devices r)) (ip_index r)"
      using inv by (simp_all add: lockstep_def)
    have "distinct (map fst (devices r'))"
      using inv res(4) by (simp add: lockstep_def distinct_update)
    moreover have "\<forall>i d. map_of (devices r') i = Some d \<longrightarrow> dev_id d = i"
      using inv res(3,4) by (auto simp: lockstep_def update_conv' split: if_splits)
    moreover have "indexes hostname (map_of (devices r')) (hostname_index r')"
      using indexes_insert [OF hs none h] res(4) by (simp add: update_conv')
    moreover have "indexes (\<lambda>d. py_str str (management_ip d)) (map_of (devices r')) (ip_index r')"
      using indexes_insert [OF ips none i] res(4) by (simp add: update_conv')
    ultimately show ?thesis using Pair by (simp add: lockstep_def)
  qed
qed

lemma delete_absent: "map_of (devices r) uid = None \<Longrightarrow> delete str uid r = (Inr False, r)"
  by (simp add: delete_def)

lemma delete_present:
  assumes inv: "lockstep str r" and d: "map_of (devices r) uid = Some d"
  shows "delete str uid r =
           (Inr True,
            r\<lparr>devices := AList.delete uid (devices r),
              hostname_index := (hostname_index r)(hostname d := None),
              ip_index := (ip_index r)(py_str str (management_ip d) := None)\<rparr>)"
proof -
  have hs: "indexes hostname (map_of (devices r)) (hostname_index r)"
    and ips: "indexes (\<lambda>d. py_str str (management_ip d)) (map_of (devices r)) (ip_index r)"
    using inv by (simp_all add: lockstep_def)
  have "hostname_index r (hostname d) = Some uid"
    using indexes_dom [OF hs d] .
  moreover have "ip_index r (py_str str (management_ip d)) = Some uid"
    using indexes_dom [OF ips d] .
  ultimately show ?thesis using d by (simp add: delete_def Let_def dom_def)
qed

lemma lockstep_delete:
  assumes inv: "lockstep str r"
  shows "lockstep str (snd (delete str uid r))"
proof (cases "map_of (devices r) uid")
  case None
  with inv show ?thesis by (simp add: delete_absent)
next
  case (Some d)
  have hs: "indexes hostname (map_of (devices r)) (hostname_index r)"
    and ips: "indexes (\<lambda>d. py_str str (management_ip d)) (map_of (devices r)) (ip_index r)"
    using inv by (simp_all add: lockstep_def)
  have "distinct (map fst (AList.delete uid (devices r)))"
    using inv by (simp add: lockstep_def distinct_delete)
  moreover have "\<forall>i e. map_of (AList.delete uid (devices r)) i = Some e \<longrightarrow> dev_id e = i"
    using inv by (auto simp: lockstep_def delete_conv' split: if_splits)
  moreover have "indexes hostname (map_of (AList.delete uid (devices r)))
                   ((hostname_index r)(hostname d := None))"
    using indexes_remove [OF hs Some] by (simp add: delete_conv')
  moreover have "indexes (\<lambda>d. py_str str (management_ip d)) (map_of (AList.delete uid (devices r)))
                   ((ip_index r)(py_str str (management_ip d) := None))"
    using indexes_remove [OF ips Some] by (simp add: delete_conv')
  ultimately show ?thesis
    by (simp add: delete_present [OF inv Some] lockstep_def)
qed

lemma update_absent: "map_of (devices r) uid = None \<Longrightarrow> update str now uid data r = (Inr None, r)"
  by (simp add: update_def)

lemma update_hostname_conflict:
  assumes "map_of (devices r) uid = Some existing"
    and "u_hostname data = Given h" and "h \<noteq> hostname existing" and "h \<in> dom (hostname_index r)"
  shows "update str now uid data r = (Inl (DuplicateDeviceError (py ''hostname'') h), r)"
  using assms by (simp add: update_def no_updates_def)

lemma update_ip_conflict:
  assumes "map_of (devices r) uid = Some existing"
    and "\<not> (\<exists>h. u_hostname data = Given h \<and> h \<noteq> hostname existing \<and> h \<in> dom (hostname_index r))"
    and "u_management_ip data = Given ip"
    and "py_str str ip \<noteq> py_str str (management_ip existing)"
    and "py_str str ip \<in> dom (ip_index r)"
  shows "update str now uid data r =
           (Inl (DuplicateDeviceError (py ''management_ip'') (Some (py_str str ip))), r)"
  using assms by (auto simp: update_def no_updates_def split: field.splits)

lemma update_duplicate_unchanged:
  assumes "update str now uid data r = (Inl (DuplicateDeviceError f v), r')"
  shows "r' = r"
  using assms
  by (auto simp: update_def Let_def split: option.splits if_splits)

lemma update_applied:
  assumes inv: "lockstep str r" and ex: "map_of (devices r) uid = Some existing"
    and set: "\<not> no_updates data"
    and h_ok: "\<not> (\<exists>h. u_hostname data = Given h \<and> h \<noteq> hostname existing \<and> h \<in> dom (hostname_index r))"
    and ip_ok: "\<not> (\<exists>ip. u_management_ip data = Given ip \<and>
                    py_str str ip \<noteq> py_str str (management_ip existing) \<and>
                    py_str str ip \<in> dom (ip_index r))"
  shows "update str now uid data r =
           (Inr (Some (model_copy existing data now)),
            r\<lparr>devices := AList.update uid (model_copy existing data now) (devices r),
              hostname_index :=
                (if hostname (model_copy existing data now) \<noteq> hostname existing
                 then ((hostname_index r)(hostname existing := None))
                        (hostname (model_copy existing data now) \<mapsto> uid)
                 else hostname_index r),
              ip_index :=
                (if py_str str (management_ip (model_copy existing data now)) \<noteq>
                    py_str str (management_ip existing)
                 then ((ip_index r)(py_str str (management_ip existing) := None))
                        (py_str str (management_ip (model_copy existing data now)) \<mapsto> uid)
                 else ip_index r)\<rparr>)"
proof -
  have hs: "indexes hostname (map_of (devices r)) (hostname_index r)"
    and ips: "indexes (\<lambda>d. py_str str (management_ip d)) (map_of (devices r)) (ip_index r)"
    using inv by (simp_all add: lockstep_def)
  have hd: "hostname existing \<in> dom (hostname_index r)"
    using indexes_dom [OF hs ex] by blast
  have id: "py_str str (management_ip existing) \<in> dom (ip_index r)"
    using indexes_dom [OF ips ex] by blast
  have c1: "\<not> (case u_hostname data of Unset \<Rightarrow> False
               | Given h \<Rightarrow> h \<noteq> hostname existing \<and> h \<in> dom (hostname_index r))"
    using h_ok by (simp split: field.splits)
  have c2: "\<not> (case u_management_ip data of Unset \<Rightarrow> False
               | Given ip \<Rightarrow> py_str str ip \<noteq> py_str str (management_ip existing) \<and>
                            py_str str ip \<in> dom (ip_index r))"
    using ip_ok by (simp split: field.splits)
  show ?thesis
    using ex set c1 c2 hd id by (simp add: update_def Let_def reindex_def)
qed

lemma model_copy_fixed:
  "dev_id (model_copy existing data now) = dev_id existing"
  "created_at (model_copy existing data now) = created_at existing"
  "updated_at (model_copy existing data now) = now"
  by (simp_all add: model_copy_def)

lemma update_result:
  assumes "update str now device_id update_data r = (Inr (Some updated_device), r')"
    and "map_of (devices r) device_id = Some existing" and "\<not> no_updates update_data"
  shows "updated_device = model_copy existing update_data now"
  using assms
  by (auto simp: update_def Let_def split: if_splits option.splits)

lemma lockstep_update:
  assumes inv: "lockstep str r"
  shows "lockstep str (snd (update str now uid data r))"
proof (cases "map_of (devices r) uid")
  case None
  with inv show ?thesis by (simp add: update_absent)
next
  case (Some existing)
  let ?new = "model_copy existing data now"
  have hs: "indexes hostname (map_of (devices r)) (hostname_index r)"
    and ips: "indexes (\<lambda>d. py_str str (management_ip d)) (map_of (devices r)) (ip_index r)"
    using inv by (simp_all add: lockstep_def)
  consider (noop) "no_updates data"
    | (dup_h) h where "u_hostname data = Given h" "h \<noteq> hostname existing" "h \<in> dom (hostname_index r)"
    | (dup_ip) ip where
        "\<not> (\<exists>h. u_hostname data = Given h \<and> h \<noteq> hostname existing \<and> h \<in> dom (hostname_index r))"
        "u_management_ip data = Given ip" "py_str str ip \<noteq> py_str str (management_ip existing)"
        "py_str str ip \<in> dom (ip_index r)"
    | (ok) "\<not> no_updates data"
        "\<not> (\<exists>h. u_hostname data = Given h \<and> h \<noteq> hostname existing \<and> h \<in> dom (hostname_index r))"
        "\<not> (\<exists>ip. u_management_ip data = Given ip \<and>
              py_str str ip \<noteq> py_str str (management_ip existing) \<and>
              py_str str ip \<in> dom (ip_index r))"
    by blast
  then show ?thesis
  proof cases
    case noop
    with inv Some show ?thesis by (simp add: update_def)
  next
    case dup_h
    with inv Some show ?thesis by (simp add: update_hostname_conflict)
  next
    case dup_ip
    with inv Some show ?thesis by (simp add: update_ip_conflict)
  next
    case ok
    have "distinct (map fst (AList.update uid ?new (devices r)))"
      using inv by (simp add: lockstep_def distinct_update)
    moreover have "\<forall>i d. map_of (AList.update uid ?new (devices r)) i = Some d \<longrightarrow> dev_id d = i"
      using inv Some by (auto simp: lockstep_def update_conv' model_copy_fixed split: if_splits)
    moreover have "indexes hostname (map_of (AList.update uid ?new (devices r)))
        (if hostname ?new \<noteq> hostname existing
         then ((hostname_index r)(hostname existing := None))(hostname ?new \<mapsto> uid)
         else hostname_index r)"
    proof (cases "hostname ?new = hostname existing")
      case True
      then show ?thesis using indexes_replace_same [OF hs Some] by (simp add: update_conv')
    next
      case False
      then have "hostname ?new \<notin> dom (hostname_index r)"
        using ok(2) by (auto simp: model_copy_def split: field.splits)
      from indexes_replace_changed [OF hs Some this] False show ?thesis
        by (simp add: update_conv')
    qed
    moreover have "indexes (\<lambda>d. py_str str (management_ip d))
        (map_of (AList.update uid ?new (devices r)))
        (if py_str str (management_ip ?new) \<noteq> py_str str (management_ip existing)
         then ((ip_index r)(py_str str (management_ip existing) := None))
                (py_str str (management_ip ?new) \<mapsto> uid)
         else ip_index r)"
    proof (cases "py_str str (management_ip ?new) = py_str str (management_ip existing)")
      case True
      then show ?thesis using indexes_replace_same [OF ips Some] by (simp add: update_conv')
    next
      case False
      then have "py_str str (management_ip ?new) \<notin> dom (ip_index r)"
        using ok(3) by (auto simp: model_copy_def split: field.splits)
      from indexes_replace_changed [OF ips Some this] False show ?thesis
        by (simp add: update_conv')
    qed
    ultimately show ?thesis
      by (simp add: update_applied [OF inv Some ok] lockstep_def)
  qed
qed


lemma add_keys:
  "fst ` set (devices (snd (add str uid t1 t2 data r))) \<subseteq> insert uid (fst ` set (devices r))"
proof (cases "add str uid t1 t2 data r")
  case (Pair res r')
  show ?thesis
  proof (cases res)
    case (Inl e)
    with Pair have "r' = r" by (auto dest: add_error_unchanged)
    with Pair show ?thesis by auto
  next
    case (Inr dev)
    from add_result(4) [OF Pair [unfolded Inr]] Pair show ?thesis
      by (auto simp: dom_update)
  qed
qed

lemma update_keys:
  "fst ` set (devices (snd (update str now uid data r))) \<subseteq> fst ` set (devices r)"
proof (cases "map_of (devices r) uid")
  case None
  then show ?thesis by (simp add: update_def)
next
  case (Some existing)
  then have "uid \<in> fst ` set (devices r)"
    by (metis map_of_None_iff option.distinct(1))
  then have "fst ` set (AList.update uid d (devices r)) = fst ` set (devices r)" for d
    by (auto simp: dom_update)
  with Some show ?thesis
    by (auto simp: update_def Let_def split: option.splits)
qed

lemma delete_keys:
  "fst ` set (devices (snd (delete str uid r))) \<subseteq> fst ` set (devices r)"
  by (auto simp: delete_def Let_def AList.delete_eq split: option.splits)

lemma reachable_issued: "reachable str issued r \<Longrightarrow> fst ` set (devices r) \<subseteq> issued"
proof (induction rule: reachable.induct)
  case start
  then show ?case by (simp add: init_def)
next
  case (after_add issued r uid device_data now_created now_updated)
  then show ?case using add_keys [of str uid now_created now_updated device_data r] by blast
next
  case (after_update issued r update_data now device_id)
  then show ?case using update_keys [of str now device_id update_data r] by blast
next
  case (after_delete issued r device_id)
  then show ?case using delete_keys [of str device_id r] by blast
qed

lemma filter_loop_typed:
  "\<forall>d \<in> set ds. typed d \<Longrightarrow>
   filter_loop p ro s ds results = Inr (results @ filter (satisfies p ro s) ds)"
  by (induction ds arbitrary: results) (auto simp: satisfies_def typed_def split: option.splits)

lemma platform_value_inj: "platform_value a = platform_value b \<longleftrightarrow> a = b"
  by (cases a; cases b) simp_all

lemma role_value_inj: "role_value a = role_value b \<longleftrightarrow> a = b"
  by (cases a; cases b) simp_all

lemma cisco_ios_unknown:
  "platform_value member \<noteq> py ''cisco_ios''" "role_value r \<noteq> py ''cisco_ios''"
  by (cases member; simp) (cases r; simp)

subsection \<open>The concrete inventory\<close>

lemma strip_literals:
  "strip (py ''spine1'') = py ''spine1''" "strip (py ''leaf1'') = py ''leaf1''"
  "strip (py ''dc1'') = py ''dc1''" "strip (py '' spine1'') = py ''spine1''"
  "strip (py '' '') = []"
  by (simp_all add: strip_def py_def is_space_def)

lemma repo1_eq:
  "repo1 = \<lparr>devices = [(1, spine1_device)], hostname_index = [Some (py ''spine1'') \<mapsto> 1],
            ip_index = [py ''10.0.0.1'' \<mapsto> 1]\<rparr>"
  by (simp add: repo1_def add_def spine1_def init_def new_Device_def strip_literals
      text_ip_def py_str_def spine1_device_def Let_def)

lemma repo2_eq:
  "repo2 = \<lparr>devices = [(1, spine1_device), (2, leaf1_device)],
            hostname_index = [Some (py ''spine1'') \<mapsto> 1, Some (py ''leaf1'') \<mapsto> 2],
            ip_index = [py ''10.0.0.1'' \<mapsto> 1, py ''10.0.0.3'' \<mapsto> 2]\<rparr>"
  by (simp add: repo2_def repo1_eq add_def leaf1_def new_Device_def strip_literals
      text_ip_def py_str_def leaf1_device_def Let_def)

lemma lockstep_repo1: "lockstep text_ip repo1"
  unfolding repo1_def using lockstep_init
  by (rule lockstep_add) (simp_all add: init_def spine1_def strip_literals)

lemma lockstep_repo2: "lockstep text_ip repo2"
  unfolding repo2_def using lockstep_repo1
  by (rule lockstep_add) (simp_all add: repo1_eq leaf1_def strip_literals)

lemma reachable_repo1: "reachable text_ip {1} repo1"
  unfolding repo1_def
  using after_add [OF start, of 1 spine1 text_ip 100 100]
  by (simp add: valid_create_def spine1_def)

lemma reachable_repo2: "reachable text_ip {2, 1} repo2"
  unfolding repo2_def
  using after_add [OF reachable_repo1, of 2 leaf1 200 200]
  by (simp add: valid_create_def leaf1_def)

lemma repo_blank_eq:
  "repo_blank = \<lparr>devices = [(1, spine1_device\<lparr>hostname := Some (py '' ''), updated_at := 150\<rparr>)],
                 hostname_index = [Some (py '' '') \<mapsto> 1],
                 ip_index = [py ''10.0.0.1'' \<mapsto> 1]\<rparr>"
  by (auto simp: repo_blank_def blank_hostname_def unset_def repo1_eq update_def no_updates_def
      model_copy_def reindex_def spine1_device_def text_ip_def py_str_def Let_def)

lemma lockstep_repo_blank: "lockstep text_ip repo_blank"
  unfolding repo_blank_def using lockstep_repo1 by (rule lockstep_update)

lemma reachable_repo_blank: "reachable text_ip {1} repo_blank"
  unfolding repo_blank_def using reachable_repo1
  by (rule after_update) (simp add: valid_update_def blank_hostname_def unset_def)

lemma repo_padded_eq:
  "repo_padded =
     \<lparr>devices = [(1, spine1_device), (2, padded_device)],
      hostname_index = [Some (py ''spine1'') \<mapsto> 2],
      ip_index = [py ''10.0.0.1'' \<mapsto> 1, py ''10.0.0.2'' \<mapsto> 2]\<rparr>"
  by (simp add: repo_padded_def repo1_eq add_def padded_def new_Device_def strip_literals
      text_ip_def py_str_def padded_device_def Let_def)

lemma repo_padded_reachable: "reachable text_ip {2, 1} repo_padded"
  unfolding repo_padded_def
  using after_add [OF reachable_repo1, of 2 padded 200 200]
  by (simp add: valid_create_def padded_def)

lemma repo_padded_not_lockstep: "\<not> lockstep text_ip repo_padded"
proof
  assume "lockstep text_ip repo_padded"
  then have "indexes hostname (map_of (devices repo_padded)) (hostname_index repo_padded)"
    by (simp add: lockstep_def)
  moreover have "map_of (devices repo_padded) 1 = Some spine1_device"
    by (simp add: repo_padded_eq)
  ultimately have "hostname_index repo_padded (hostname spine1_device) = Some 1"
    by (rule indexes_dom)
  then show False
    by (simp add: repo_padded_eq spine1_device_def)
qed

lemma repo_orphan_eq:
  "repo_orphan =
     \<lparr>devices = [(1, spine1_device), (3, leaf1_device\<lparr>dev_id := 3, created_at := 300,
                                                       updated_at := 300\<rparr>)],
      hostname_index = [Some (py ''leaf1'') \<mapsto> 3],
      ip_index = [py ''10.0.0.1'' \<mapsto> 1, py ''10.0.0.3'' \<mapsto> 3]\<rparr>"
  by (auto simp: repo_orphan_def repo_padded_eq delete_def add_def leaf1_def new_Device_def
      strip_literals text_ip_def py_str_def padded_device_def leaf1_device_def Let_def)

lemma repo_orphan_reachable: "reachable text_ip {3, 2, 1} repo_orphan"
  unfolding repo_orphan_def
  using after_add [OF after_delete [OF repo_padded_reachable, of 2], of 3 leaf1 300 300]
  by (simp add: valid_create_def leaf1_def)

lemma repo_untyped_eq:
  "repo_untyped =
     \<lparr>devices = [(1, spine1_device\<lparr>platform := None, role := None, updated_at := 150\<rparr>)],
      hostname_index = [Some (py ''spine1'') \<mapsto> 1],
      ip_index = [py ''10.0.0.1'' \<mapsto> 1]\<rparr>"
  by (simp add: repo_untyped_def no_platform_role_def unset_def repo1_eq update_def no_updates_def
      model_copy_def reindex_def spine1_device_def text_ip_def py_str_def Let_def)

lemma repo_untyped_reachable: "reachable text_ip {1} repo_untyped"
  unfolding repo_untyped_def using reachable_repo1
  by (rule after_update) (simp add: valid_update_def no_platform_role_def unset_def)

lemma repo_padded_after_deletes:
  "fst (delete text_ip 1 repo_padded) = Inr True \<and>
   fst (get_by_id 2 (snd (delete text_ip 1 repo_padded))) = Some padded_device \<and>
   fst (get_by_hostname (py ''spine1'') (snd (delete text_ip 1 repo_padded))) = None \<and>
   fst (delete text_ip 2 (snd (delete text_ip 1 repo_padded))) =
     Inl (KeyError (Some (py ''spine1'')))"
  by (simp add: repo_padded_eq delete_def get_by_id_def get_by_hostname_def Let_def
      spine1_device_def padded_device_def text_ip_def py_str_def)

section \<open>The claims\<close>

text \<open>
  C1. Every repository reachable from the empty one should be in lockstep, so that no two
  stored devices share a hostname. \<open>add\<close> looks the payload's hostname up as it was given,
  and stores the device under the hostname that \<open>Device\<close> has stripped. With \<open>spine1\<close>
  stored, the valid payload \<open>padded\<close> (hostname \<open>spine1\<close> after a space, a new address) passes
  both checks: afterwards two devices are stored with hostname \<open>spine1\<close>, and the hostname
  index holds the second only.
\<close>

theorem add_padded_hostname_stores_duplicate:
  "valid_create padded \<and>
   Some (c_hostname padded) \<notin> dom (hostname_index repo1) \<and>
   text_ip (c_management_ip padded) \<notin> dom (ip_index repo1) \<and>
   fst (add text_ip 2 200 200 padded repo1) = Inr padded_device \<and>
   map (\<lambda>(i, d). (i, hostname d)) (devices repo_padded) =
     [(1, Some (py ''spine1'')), (2, Some (py ''spine1''))] \<and>
   hostname_index repo_padded (Some (py ''spine1'')) = Some 2"
proof -
  have "fst (add text_ip 2 200 200 padded repo1) = Inr padded_device"
    by (simp add: repo1_eq add_def padded_def new_Device_def strip_literals
        text_ip_def py_str_def padded_device_def Let_def)
  moreover have "valid_create padded"
    by (simp add: valid_create_def padded_def)
  moreover have "Some (c_hostname padded) \<notin> dom (hostname_index repo1)"
    "text_ip (c_management_ip padded) \<notin> dom (ip_index repo1)"
    by (simp_all add: repo1_eq padded_def text_ip_def)
  ultimately show ?thesis
    by (simp add: repo_padded_eq spine1_device_def padded_device_def)
qed

text \<open>
  C2. An update that sets the hostname to one that a different stored device has should
  raise \<open>DuplicateDeviceError\<close> and change nothing. \<open>update\<close> asks the hostname index only,
  and the index can have lost a stored device's hostname: in \<open>repo_orphan\<close> (add \<open>spine1\<close>,
  add \<open>padded\<close>, delete the second, add \<open>leaf1\<close>) device 1 is stored with hostname
  \<open>spine1\<close>, which the index no longer holds. Renaming device 3 to \<open>spine1\<close> succeeds
  there, and two stored devices have that hostname.
\<close>

theorem update_to_orphaned_hostname_succeeds:
  "map (\<lambda>(i, d). (i, hostname d)) (devices repo_orphan) =
     [(1, Some (py ''spine1'')), (3, Some (py ''leaf1''))] \<and>
   valid_update (unset\<lparr>u_hostname := Given (Some (py ''spine1''))\<rparr>) \<and>
   fst (update text_ip 400 3 (unset\<lparr>u_hostname := Given (Some (py ''spine1''))\<rparr>) repo_orphan) =
     Inr (Some (leaf1_device\<lparr>dev_id := 3, hostname := Some (py ''spine1''), created_at := 300,
                              updated_at := 400\<rparr>)) \<and>
   map (\<lambda>(i, d). (i, hostname d))
     (devices (snd (update text_ip 400 3 (unset\<lparr>u_hostname := Given (Some (py ''spine1''))\<rparr>)
                      repo_orphan))) =
     [(1, Some (py ''spine1'')), (3, Some (py ''spine1''))]"
proof -
  have "update text_ip 400 3 (unset\<lparr>u_hostname := Given (Some (py ''spine1''))\<rparr>) repo_orphan =
     (Inr (Some (leaf1_device\<lparr>dev_id := 3, hostname := Some (py ''spine1''), created_at := 300,
                              updated_at := 400\<rparr>)),
      \<lparr>devices = [(1, spine1_device),
                  (3, leaf1_device\<lparr>dev_id := 3, hostname := Some (py ''spine1''),
                                    created_at := 300, updated_at := 400\<rparr>)],
       hostname_index = [Some (py ''spine1'') \<mapsto> 3],
       ip_index = [py ''10.0.0.1'' \<mapsto> 1, py ''10.0.0.3'' \<mapsto> 3]\<rparr>)"
    by (auto simp: repo_orphan_eq update_def unset_def no_updates_def model_copy_def reindex_def
        leaf1_device_def text_ip_def py_str_def Let_def)
  moreover have "valid_update (unset\<lparr>u_hostname := Given (Some (py ''spine1''))\<rparr>)"
    by (simp add: valid_update_def unset_def)
  ultimately show ?thesis
    by (simp add: repo_orphan_eq spine1_device_def leaf1_device_def)
qed

text \<open>
  C3. For every repository and creation payload: when the payload's hostname is in the hostname
  index, \<open>add\<close> raises \<open>DuplicateDeviceError\<close> with field \<open>hostname\<close> and that hostname, and
  the repository is as before; otherwise, when the canonical string of the payload's address
  is in the IP index, it raises \<open>DuplicateDeviceError\<close> with field \<open>management_ip\<close> and that
  string, and the repository is as before. The hostname is checked first, so a payload that
  duplicates both reports the hostname.
\<close>

theorem add_rejects_duplicates:
  "(Some (c_hostname device_data) \<in> dom (hostname_index r) \<longrightarrow>
      add str uid now_created now_updated device_data r =
        (Inl (DuplicateDeviceError (py ''hostname'') (Some (c_hostname device_data))), r)) \<and>
   (Some (c_hostname device_data) \<notin> dom (hostname_index r) \<and>
    str (c_management_ip device_data) \<in> dom (ip_index r) \<longrightarrow>
      add str uid now_created now_updated device_data r =
        (Inl (DuplicateDeviceError (py ''management_ip'')
                (Some (str (c_management_ip device_data)))), r))"
  by (simp add: add_def)

theorem add_rejects_duplicates_witness:
  "add text_ip 2 200 200 (spine1\<lparr>c_hostname := py ''spine2''\<rparr>) repo1 =
     (Inl (DuplicateDeviceError (py ''management_ip'') (Some (py ''10.0.0.1''))), repo1) \<and>
   add text_ip 2 200 200 (spine1\<lparr>c_management_ip := ''10.0.0.99''\<rparr>) repo1 =
     (Inl (DuplicateDeviceError (py ''hostname'') (Some (py ''spine1''))), repo1) \<and>
   add text_ip 2 200 200 spine1 repo1 =
     (Inl (DuplicateDeviceError (py ''hostname'') (Some (py ''spine1''))), repo1)"
  using add_rejects_duplicates [of "spine1\<lparr>c_hostname := py ''spine2''\<rparr>" repo1 text_ip 2 200 200]
    add_rejects_duplicates [of "spine1\<lparr>c_management_ip := ''10.0.0.99''\<rparr>" repo1 text_ip 2 200 200]
    add_rejects_duplicates [of spine1 repo1 text_ip 2 200 200]
  by (simp add: repo1_eq spine1_def text_ip_def)

text \<open>
  C4. A successful update that sets a field should return a device whose \<open>updated_at\<close> is
  strictly greater than before, also when two updates happen at one clock reading.
  \<open>update\<close> stores the reading of \<open>datetime.now()\<close> as it is: two updates of \<open>spine1\<close> at
  the reading 300 both succeed, and the second returns the \<open>updated_at\<close> that the first had
  stored.
\<close>

theorem update_at_same_clock_reading:
  "fst (update text_ip 300 1 (unset\<lparr>u_site := Given (Some (py ''dc2''))\<rparr>) repo1) =
     Inr (Some (spine1_device\<lparr>site := Some (py ''dc2''), updated_at := 300\<rparr>)) \<and>
   fst (update text_ip 300 1 (unset\<lparr>u_site := Given (Some (py ''dc3''))\<rparr>)
          (snd (update text_ip 300 1 (unset\<lparr>u_site := Given (Some (py ''dc2''))\<rparr>) repo1))) =
     Inr (Some (spine1_device\<lparr>site := Some (py ''dc3''), updated_at := 300\<rparr>)) \<and>
   updated_at (spine1_device\<lparr>site := Some (py ''dc3''), updated_at := 300\<rparr>) =
     updated_at (spine1_device\<lparr>site := Some (py ''dc2''), updated_at := 300\<rparr>)"
proof -
  have 1: "update text_ip 300 1 (unset\<lparr>u_site := Given (Some (py ''dc2''))\<rparr>) repo1 =
      (Inr (Some (spine1_device\<lparr>site := Some (py ''dc2''), updated_at := 300\<rparr>)),
       repo1\<lparr>devices := [(1, spine1_device\<lparr>site := Some (py ''dc2''), updated_at := 300\<rparr>)]\<rparr>)"
    by (simp add: repo1_eq update_def unset_def no_updates_def model_copy_def reindex_def
        spine1_device_def Let_def)
  have 2: "fst (update text_ip 300 1 (unset\<lparr>u_site := Given (Some (py ''dc3''))\<rparr>)
           (repo1\<lparr>devices := [(1, spine1_device\<lparr>site := Some (py ''dc2''),
                                                  updated_at := 300\<rparr>)]\<rparr>)) =
      Inr (Some (spine1_device\<lparr>site := Some (py ''dc3''), updated_at := 300\<rparr>))"
    by (simp add: repo1_eq update_def unset_def no_updates_def model_copy_def reindex_def
        spine1_device_def Let_def)
  show ?thesis using 1 2 by simp
qed




text \<open>
  C6. After \<open>delete\<close> of a stored device, an \<open>add\<close> that reuses its hostname and address
  should succeed. \<open>update\<close> stores a hostname without validating it as \<open>Device\<close> does:
  in \<open>repo_blank\<close> the valid update \<open>blank_hostname\<close> has given the one device the
  hostname \<open>'' ''\<close>. \<open>delete\<close> removes that device and returns \<open>True\<close>; the \<open>add\<close> of the
  valid payload with the deleted device's hostname and address then raises the validation
  error of \<open>Device\<close>.
\<close>

theorem delete_then_add_blank_hostname:
  "valid_update blank_hostname \<and>
   fst (get_by_id 1 repo_blank) =
     Some (spine1_device\<lparr>hostname := Some (py '' ''), updated_at := 150\<rparr>) \<and>
   fst (delete text_ip 1 repo_blank) = Inr True \<and>
   valid_create (spine1\<lparr>c_hostname := py '' ''\<rparr>) \<and>
   fst (add text_ip 2 300 300 (spine1\<lparr>c_hostname := py '' ''\<rparr>)
          (snd (delete text_ip 1 repo_blank))) =
     Inl (ValidationError [py ''hostname''])"
proof -
  have "fst (delete text_ip 1 repo_blank) = Inr True"
    by (simp add: repo_blank_eq delete_def Let_def spine1_device_def text_ip_def py_str_def)
  moreover have "fst (add text_ip 2 300 300 (spine1\<lparr>c_hostname := py '' ''\<rparr>)
                       (snd (delete text_ip 1 repo_blank))) =
                 Inl (ValidationError [py ''hostname''])"
    by (simp add: repo_blank_eq delete_def Let_def spine1_device_def text_ip_def py_str_def
        add_def spine1_def new_Device_def strip_literals)
  moreover have "fst (get_by_id 1 repo_blank) =
      Some (spine1_device\<lparr>hostname := Some (py '' ''), updated_at := 150\<rparr>)"
    by (simp add: repo_blank_eq get_by_id_def)
  moreover have "valid_create (spine1\<lparr>c_hostname := py '' ''\<rparr>)"
    by (simp add: valid_create_def spine1_def)
  moreover have "valid_update blank_hostname"
    by (simp add: valid_update_def blank_hostname_def unset_def)
  ultimately show ?thesis by simp
qed

text \<open>
  C7. For a stored device, \<open>update\<close> with a payload that sets no field returns the stored
  device itself, so every field and also \<open>updated_at\<close> is as before, and the repository is
  unchanged.
\<close>

theorem update_without_fields_is_noop:
  assumes "map_of (devices r) device_id = Some existing" and "no_updates update_data"
  shows "update str now device_id update_data r = (Inr (Some existing), r)"
  using assms by (simp add: update_def)

theorem update_without_fields_is_noop_witness:
  "update text_ip 300 1 unset repo2 = (Inr (Some spine1_device), repo2) \<and>
   updated_at spine1_device = 100"
  using update_without_fields_is_noop [of repo2 1 spine1_device unset text_ip 300]
  by (simp add: repo2_eq unset_def no_updates_def spine1_device_def)

text \<open>
  C8. \<open>filter_by\<close> should return, in every repository, the devices of \<open>get_all\<close> that
  satisfy the supplied criteria. \<open>update\<close> stores a field that the payload sets to \<open>None\<close>:
  in \<open>repo_untyped\<close> the valid update \<open>no_platform_role\<close> has left the one device without
  platform and role. There \<open>filter_by\<close> with a platform criterion, or with a role
  criterion, raises \<open>AttributeError\<close> where the devices that satisfy the criteria are none.
\<close>

theorem filter_by_raises_on_untyped_device:
  "valid_update no_platform_role \<and>
   fst (get_all repo_untyped) =
     [spine1_device\<lparr>platform := None, role := None, updated_at := 150\<rparr>] \<and>
   filter (satisfies (Some (py ''eos'')) None None) (fst (get_all repo_untyped)) = [] \<and>
   fst (filter_by (Some (py ''eos'')) None None repo_untyped) =
     Inl (AttributeError (py ''value'')) \<and>
   fst (filter_by None (Some (py ''spine'')) (Some (py ''dc1'')) repo_untyped) =
     Inl (AttributeError (py ''value''))"
  by (simp add: repo_untyped_eq get_all_def filter_by_def satisfies_def valid_update_def
      no_platform_role_def unset_def spine1_device_def)

text \<open>
  C9. \<open>get_by_id\<close>, \<open>get_by_hostname\<close>, \<open>get_all\<close> and \<open>filter_by\<close> return the repository
  they were given, for every repository and every argument; an identity that is no key of
  the primary store and a hostname that is not in the index give \<open>None\<close>.
\<close>

theorem reads_leave_repository_unchanged:
  "snd (get_by_id device_id r) = r \<and> snd (get_by_hostname h r) = r \<and> snd (get_all r) = r \<and>
   snd (filter_by p ro s r) = r \<and>
   (device_id \<notin> fst ` set (devices r) \<longrightarrow> fst (get_by_id device_id r) = None) \<and>
   (Some h \<notin> dom (hostname_index r) \<longrightarrow> fst (get_by_hostname h r) = None)"
  by (auto simp: get_by_id_def get_by_hostname_def get_all_def filter_by_def map_of_None_iff
      split: option.splits)

theorem reads_leave_repository_unchanged_witness:
  "snd (get_by_id 7 repo2) = repo2 \<and> fst (get_by_id 7 repo2) = None \<and>
   snd (get_by_hostname (py ''nonexistent'') repo2) = repo2 \<and>
   fst (get_by_hostname (py ''nonexistent'') repo2) = None \<and>
   snd (get_all repo2) = repo2 \<and> snd (filter_by (Some (py ''eos'')) None None repo2) = repo2"
  using reads_leave_repository_unchanged
    [of 7 repo2 "py ''nonexistent''" "Some (py ''eos'')" None None]
  by (simp add: repo2_eq)

text \<open>
  C10. \<open>filter_by\<close> with a platform or role string that is the value of no member should
  return the empty list in every repository, with no error. In \<open>repo_untyped\<close>, whose device
  the valid update \<open>no_platform_role\<close> has left without platform and role, the word
  \<open>cisco_ios\<close> is the value of no member, and \<open>filter_by\<close> with it as platform, or as role,
  raises \<open>AttributeError\<close>.
\<close>

theorem filter_by_unknown_word_raises_on_untyped_device:
  "(\<forall>member. platform_value member \<noteq> py ''cisco_ios'') \<and>
   (\<forall>member. role_value member \<noteq> py ''cisco_ios'') \<and>
   fst (filter_by (Some (py ''cisco_ios'')) None None repo_untyped) =
     Inl (AttributeError (py ''value'')) \<and>
   fst (filter_by None (Some (py ''cisco_ios'')) None repo_untyped) =
     Inl (AttributeError (py ''value''))"
  by (simp add: cisco_ios_unknown repo_untyped_eq filter_by_def spine1_device_def)

section \<open>Further properties\<close>

text \<open>
  X1. A successful update of a stored device that sets a field returns a device with the
  same identity and the same \<open>created_at\<close>, and with the clock reading of the call as
  \<open>updated_at\<close>: \<open>updated_at\<close> has grown exactly when the clock reading is later than the
  stored one.
\<close>

theorem update_stamps_clock_reading:
  assumes "update str now device_id update_data r = (Inr (Some updated_device), r')"
    and "map_of (devices r) device_id = Some existing" and "\<not> no_updates update_data"
  shows "dev_id updated_device = dev_id existing \<and>
         created_at updated_device = created_at existing \<and>
         updated_at updated_device = now \<and>
         (updated_at existing < updated_at updated_device \<longleftrightarrow> updated_at existing < now)"
  using update_result [OF assms] by (simp add: model_copy_fixed)

theorem update_stamps_clock_reading_witness:
  "fst (update text_ip 300 1 (unset\<lparr>u_site := Given (Some (py ''dc2''))\<rparr>) repo1) =
     Inr (Some (spine1_device\<lparr>site := Some (py ''dc2''), updated_at := 300\<rparr>)) \<and>
   dev_id (spine1_device\<lparr>site := Some (py ''dc2''), updated_at := 300\<rparr>) = 1 \<and>
   created_at (spine1_device\<lparr>site := Some (py ''dc2''), updated_at := 300\<rparr>) = 100 \<and>
   updated_at spine1_device <
     updated_at (spine1_device\<lparr>site := Some (py ''dc2''), updated_at := 300\<rparr>)"
proof -
  have 1: "update text_ip 300 1 (unset\<lparr>u_site := Given (Some (py ''dc2''))\<rparr>) repo1 =
      (Inr (Some (spine1_device\<lparr>site := Some (py ''dc2''), updated_at := 300\<rparr>)),
       repo1\<lparr>devices := [(1, spine1_device\<lparr>site := Some (py ''dc2''), updated_at := 300\<rparr>)]\<rparr>)"
    by (simp add: repo1_eq update_def unset_def no_updates_def model_copy_def reindex_def
        spine1_device_def Let_def)
  have 2: "map_of (devices repo1) 1 = Some spine1_device"
    "\<not> no_updates (unset\<lparr>u_site := Given (Some (py ''dc2''))\<rparr>)"
    by (simp_all add: repo1_eq unset_def no_updates_def)
  have 3: "updated_at spine1_device < 300"
    by (simp add: spine1_device_def)
  from update_stamps_clock_reading [OF 1 2] 3 1 show ?thesis
    by (simp add: spine1_device_def)
qed

text \<open>
  X2. Lockstep is kept by \<open>update\<close> and by \<open>delete\<close>, and by \<open>add\<close> when \<open>uuid4()\<close> gives an
  identity that is no key of the primary store and the payload's stripped hostname is not in
  the hostname index.
\<close>

theorem lockstep_preserved:
  assumes "lockstep str r"
  shows "lockstep str (snd (update str now device_id update_data r)) \<and>
         lockstep str (snd (delete str device_id r)) \<and>
         (uid \<notin> fst ` set (devices r) \<and>
          Some (strip (c_hostname device_data)) \<notin> dom (hostname_index r) \<longrightarrow>
          lockstep str (snd (add str uid now_created now_updated device_data r)))"
  using assms by (simp add: lockstep_update lockstep_delete lockstep_add)

theorem lockstep_preserved_witness:
  "lockstep text_ip repo1 \<and>
   lockstep text_ip (snd (update text_ip 150 1 blank_hostname repo1)) \<and>
   lockstep text_ip (snd (delete text_ip 1 repo1)) \<and>
   lockstep text_ip (snd (add text_ip 2 200 200 leaf1 repo1))"
proof -
  have "2 \<notin> fst ` set (devices repo1) \<and>
        Some (strip (c_hostname leaf1)) \<notin> dom (hostname_index repo1)"
    by (simp add: repo1_eq leaf1_def strip_literals)
  then show ?thesis
    using lockstep_preserved [OF lockstep_repo1, of 150 1 blank_hostname 2 leaf1 200 200]
      lockstep_repo1
    by blast
qed

text \<open>
  X3. For a stored device in a repository that is in lockstep: an update payload whose
  hostname is that of a different stored device raises \<open>DuplicateDeviceError\<close> on field
  \<open>hostname\<close> and leaves the repository as it was; a payload whose address has the canonical
  string of a different stored device's address raises \<open>DuplicateDeviceError\<close> and leaves the
  repository as it was, on field \<open>management_ip\<close> unless the hostname check, which comes
  first, has raised. In every repository, a payload that sets the hostname to the device's
  own hostname raises no duplicate error on \<open>hostname\<close>, and one that sets the address to one
  with the device's own canonical string raises none on \<open>management_ip\<close>.
\<close>

theorem update_rejects_duplicates:
  assumes "map_of (devices r) device_id = Some existing"
  shows
   "(lockstep str r \<longrightarrow>
      (\<forall>other owner. other \<noteq> device_id \<and> map_of (devices r) other = Some owner \<and>
          u_hostname update_data = Given (hostname owner) \<longrightarrow>
          update str now device_id update_data r =
            (Inl (DuplicateDeviceError (py ''hostname'') (hostname owner)), r)) \<and>
      (\<forall>other owner ip. other \<noteq> device_id \<and> map_of (devices r) other = Some owner \<and>
          u_management_ip update_data = Given ip \<and>
          py_str str ip = py_str str (management_ip owner) \<longrightarrow>
          (\<exists>field v. update str now device_id update_data r =
                        (Inl (DuplicateDeviceError field v), r)) \<and>
          (\<not> (\<exists>h. u_hostname update_data = Given h \<and> h \<noteq> hostname existing \<and>
                   h \<in> dom (hostname_index r)) \<longrightarrow>
           update str now device_id update_data r =
             (Inl (DuplicateDeviceError (py ''management_ip'') (Some (py_str str ip))), r)))) \<and>
    (u_hostname update_data = Given (hostname existing) \<longrightarrow>
       (\<forall>v. fst (update str now device_id update_data r) \<noteq>
              Inl (DuplicateDeviceError (py ''hostname'') v))) \<and>
    (\<forall>ip. u_management_ip update_data = Given ip \<and>
           py_str str ip = py_str str (management_ip existing) \<longrightarrow>
       (\<forall>v. fst (update str now device_id update_data r) \<noteq>
              Inl (DuplicateDeviceError (py ''management_ip'') v)))"
proof (intro conjI impI allI)
  fix other owner
  assume inv: "lockstep str r"
    and o: "other \<noteq> device_id \<and> map_of (devices r) other = Some owner \<and>
            u_hostname update_data = Given (hostname owner)"
  have hs: "indexes hostname (map_of (devices r)) (hostname_index r)"
    using inv by (simp add: lockstep_def)
  have "hostname owner \<noteq> hostname existing"
    using indexes_unique [OF hs _ assms] o by blast
  moreover have "hostname owner \<in> dom (hostname_index r)"
    using indexes_dom [OF hs] o by blast
  ultimately show "update str now device_id update_data r =
      (Inl (DuplicateDeviceError (py ''hostname'') (hostname owner)), r)"
    using o by (simp add: update_hostname_conflict [OF assms])
next
  fix other owner ip
  assume inv: "lockstep str r"
    and o: "other \<noteq> device_id \<and> map_of (devices r) other = Some owner \<and>
            u_management_ip update_data = Given ip \<and>
            py_str str ip = py_str str (management_ip owner)"
  have ips: "indexes (\<lambda>d. py_str str (management_ip d)) (map_of (devices r)) (ip_index r)"
    using inv by (simp add: lockstep_def)
  have ne: "py_str str ip \<noteq> py_str str (management_ip existing)"
    using indexes_unique [OF ips _ assms] o by metis
  have dom: "py_str str ip \<in> dom (ip_index r)"
    using indexes_dom [OF ips] o by fastforce
  show "\<exists>field v. update str now device_id update_data r =
                    (Inl (DuplicateDeviceError field v), r)"
  proof (cases "\<exists>h. u_hostname update_data = Given h \<and> h \<noteq> hostname existing \<and>
                   h \<in> dom (hostname_index r)")
    case True
    then show ?thesis using update_hostname_conflict [OF assms] by blast
  next
    case False
    then show ?thesis using update_ip_conflict [OF assms False _ ne dom] o by blast
  qed
  assume "\<not> (\<exists>h. u_hostname update_data = Given h \<and> h \<noteq> hostname existing \<and>
                   h \<in> dom (hostname_index r))"
  then show "update str now device_id update_data r =
      (Inl (DuplicateDeviceError (py ''management_ip'') (Some (py_str str ip))), r)"
    using update_ip_conflict [OF assms _ _ ne dom] o by blast
next
  fix v
  assume "u_hostname update_data = Given (hostname existing)"
  then show "fst (update str now device_id update_data r) \<noteq>
      Inl (DuplicateDeviceError (py ''hostname'') v)"
    using assms
    by (auto simp: update_def Let_def split: option.splits if_splits field.splits)
next
  fix ip v
  assume "u_management_ip update_data = Given ip \<and>
          py_str str ip = py_str str (management_ip existing)"
  then show "fst (update str now device_id update_data r) \<noteq>
      Inl (DuplicateDeviceError (py ''management_ip'') v)"
    using assms
    by (auto simp: update_def Let_def split: option.splits if_splits field.splits)
qed

theorem update_rejects_duplicates_witness:
  "update text_ip 300 2 (unset\<lparr>u_hostname := Given (Some (py ''spine1''))\<rparr>) repo2 =
     (Inl (DuplicateDeviceError (py ''hostname'') (Some (py ''spine1''))), repo2) \<and>
   update text_ip 300 2 (unset\<lparr>u_management_ip := Given (Some ''10.0.0.1'')\<rparr>) repo2 =
     (Inl (DuplicateDeviceError (py ''management_ip'') (Some (py ''10.0.0.1''))), repo2) \<and>
   (\<forall>v. fst (update text_ip 300 2 (unset\<lparr>u_hostname := Given (Some (py ''leaf1''))\<rparr>) repo2) \<noteq>
          Inl (DuplicateDeviceError (py ''hostname'') v)) \<and>
   (\<forall>v. fst (update text_ip 300 2 (unset\<lparr>u_management_ip := Given (Some ''10.0.0.3'')\<rparr>) repo2) \<noteq>
          Inl (DuplicateDeviceError (py ''management_ip'') v))"
proof -
  let ?h = "unset\<lparr>u_hostname := Given (Some (py ''spine1''))\<rparr>"
  let ?i = "unset\<lparr>u_management_ip := Given (Some ''10.0.0.1'')\<rparr>"
  let ?own_h = "unset\<lparr>u_hostname := Given (Some (py ''leaf1''))\<rparr>"
  let ?own_i = "unset\<lparr>u_management_ip := Given (Some ''10.0.0.3'')\<rparr>"
  have leaf: "map_of (devices repo2) 2 = Some leaf1_device"
    and spine: "map_of (devices repo2) 1 = Some spine1_device"
    by (simp_all add: repo2_eq)
  have ne: "(1::nat) \<noteq> 2" by simp
  have h: "u_hostname ?h = Given (hostname spine1_device)"
    and i: "u_management_ip ?i = Given (Some ''10.0.0.1'')"
      "py_str text_ip (Some ''10.0.0.1'') = py_str text_ip (management_ip spine1_device)"
      "\<not> (\<exists>h. u_hostname ?i = Given h \<and> h \<noteq> hostname leaf1_device \<and>
               h \<in> dom (hostname_index repo2))"
    and own_h: "u_hostname ?own_h = Given (hostname leaf1_device)"
    and own_i: "u_management_ip ?own_i = Given (Some ''10.0.0.3'')"
      "py_str text_ip (Some ''10.0.0.3'') = py_str text_ip (management_ip leaf1_device)"
    by (simp_all add: unset_def spine1_device_def leaf1_device_def)
  have "update text_ip 300 2 ?h repo2 =
      (Inl (DuplicateDeviceError (py ''hostname'') (hostname spine1_device)), repo2)"
    using update_rejects_duplicates [OF leaf, of text_ip ?h 300] lockstep_repo2 spine h ne
    by blast
  moreover have "update text_ip 300 2 ?i repo2 =
      (Inl (DuplicateDeviceError (py ''management_ip'')
              (Some (py_str text_ip (Some ''10.0.0.1'')))), repo2)"
    using update_rejects_duplicates [OF leaf, of text_ip ?i 300] lockstep_repo2 spine i ne
    by blast
  moreover have "\<forall>v. fst (update text_ip 300 2 ?own_h repo2) \<noteq>
      Inl (DuplicateDeviceError (py ''hostname'') v)"
    using update_rejects_duplicates [OF leaf, of text_ip ?own_h 300] own_h
    by blast
  moreover have "\<forall>v. fst (update text_ip 300 2 ?own_i repo2) \<noteq>
      Inl (DuplicateDeviceError (py ''management_ip'') v)"
    using update_rejects_duplicates [OF leaf, of text_ip ?own_i 300] own_i
    by blast
  ultimately show ?thesis
    by (simp add: spine1_device_def text_ip_def py_str_def)
qed

text \<open>
  X4. In a repository whose stored devices all have a platform and a role, \<open>filter_by\<close>
  raises nothing and returns the devices of \<open>get_all\<close> that satisfy every supplied
  criterion, in the order of \<open>get_all\<close>. With criteria that are values of members of the
  enumerations, a device is returned exactly when its platform and role are those members
  and its site is the given one; with no criterion the result is that of \<open>get_all\<close>.
\<close>

theorem filter_by_is_conjunction:
  assumes "\<forall>d \<in> set (fst (get_all r)). typed d"
  shows
  "fst (filter_by p ro s r) = Inr (filter (satisfies p ro s) (fst (get_all r))) \<and>
   fst (filter_by (map_option platform_value P) (map_option role_value R) S r) =
     Inr (filter (\<lambda>d. (P = None \<or> P = platform d) \<and> (R = None \<or> R = role d) \<and>
                       (S = None \<or> S = site d)) (fst (get_all r))) \<and>
   fst (filter_by None None None r) = Inr (fst (get_all r))"
proof -
  have 1: "fst (filter_by p ro s r) = Inr (filter (satisfies p ro s) (fst (get_all r)))"
    for p ro s
    using assms by (simp add: filter_by_def get_all_def filter_loop_typed)
  have "satisfies (map_option platform_value P) (map_option role_value R) S d \<longleftrightarrow>
        (P = None \<or> P = platform d) \<and> (R = None \<or> R = role d) \<and> (S = None \<or> S = site d)"
    for d :: "'a Device"
    by (cases P; cases R; cases S; cases "platform d"; cases "role d")
      (auto simp: satisfies_def platform_value_inj role_value_inj)
  then have 2: "satisfies (map_option platform_value P) (map_option role_value R) S =
        (\<lambda>d :: 'a Device. (P = None \<or> P = platform d) \<and> (R = None \<or> R = role d) \<and>
                            (S = None \<or> S = site d))"
    by (intro ext)
  have "satisfies None None None d" for d :: "'a Device"
    by (simp add: satisfies_def)
  then have 3: "filter (satisfies None None None) ds = ds" for ds :: "'a Device list"
    by simp
  show ?thesis
    by (simp add: 1 2 3)
qed

theorem filter_by_is_conjunction_witness:
  "fst (filter_by None (Some (py ''leaf'')) (Some (py ''dc1'')) repo2) = Inr [leaf1_device] \<and>
   fst (filter_by (Some (py ''eos'')) None None repo2) = Inr [spine1_device] \<and>
   fst (filter_by None None (Some (py ''dc99'')) repo2) = Inr [] \<and>
   fst (filter_by None None None repo2) = Inr [spine1_device, leaf1_device]"
proof -
  have t: "\<forall>d \<in> set (fst (get_all repo2)). typed d"
    by (simp add: repo2_eq get_all_def typed_def spine1_device_def leaf1_device_def)
  show ?thesis
    using filter_by_is_conjunction [OF t, of None "Some (py ''leaf'')" "Some (py ''dc1'')" None None None]
      filter_by_is_conjunction [OF t, of "Some (py ''eos'')" None None None None None]
      filter_by_is_conjunction [OF t, of None None "Some (py ''dc99'')" None None None]
    by (simp add: repo2_eq get_all_def satisfies_def spine1_device_def leaf1_device_def)
qed

text \<open>
  X5. In a repository whose stored devices all have a platform and a role, \<open>filter_by\<close> with
  a platform string that is the value of no member of \<open>DevicePlatform\<close>, or a role string
  that is the value of no member of \<open>DeviceRole\<close>, raises nothing and returns the empty list.
\<close>

theorem filter_by_unknown_word_matches_nothing:
  assumes "\<forall>d \<in> set (fst (get_all r)). typed d"
  shows "((\<forall>member. platform_value member \<noteq> word) \<longrightarrow>
            fst (filter_by (Some word) ro s r) = Inr []) \<and>
         ((\<forall>member. role_value member \<noteq> word) \<longrightarrow>
            fst (filter_by p (Some word) s r) = Inr [])"
  using assms
  by (auto simp: filter_by_def get_all_def filter_loop_typed satisfies_def filter_empty_conv
      typed_def)

theorem filter_by_unknown_word_matches_nothing_witness:
  "fst (filter_by (Some (py ''cisco_ios'')) None None repo2) = Inr [] \<and>
   fst (filter_by None (Some (py ''cisco_ios'')) None repo2) = Inr []"
proof -
  have t: "\<forall>d \<in> set (fst (get_all repo2)). typed d"
    by (simp add: repo2_eq get_all_def typed_def spine1_device_def leaf1_device_def)
  show ?thesis
    using filter_by_unknown_word_matches_nothing [OF t, of "py ''cisco_ios''" None None None]
    by (simp add: cisco_ios_unknown)
qed

text \<open>
  X6. \<open>delete\<close> returns \<open>False\<close> and the repository as it was when no device has the
  identity. In a reachable repository that is in lockstep, when a device has it, \<open>delete\<close>
  returns \<open>True\<close>, and removes that device from the primary store and its hostname and
  canonical address string from the two indexes, and nothing else. After that, an \<open>add\<close> of
  a valid payload with the deleted device's hostname and address succeeds provided the
  hostname and the site are not empty once stripped; and when \<open>uuid4()\<close> gives it an
  identity that was not issued before, that identity is not the deleted one.
\<close>

theorem delete_frees_keys:
  "(device_id \<notin> fst ` set (devices r) \<longrightarrow> delete str device_id r = (Inr False, r)) \<and>
   (\<forall>device. reachable str issued r \<and> lockstep str r \<and>
       map_of (devices r) device_id = Some device \<longrightarrow>
       (\<exists>r'. delete str device_id r = (Inr True, r') \<and>
          devices r' = AList.delete device_id (devices r) \<and>
          hostname_index r' = (hostname_index r)(hostname device := None) \<and>
          ip_index r' = (ip_index r)(py_str str (management_ip device) := None) \<and>
          device_id \<notin> fst ` set (devices r') \<and>
          hostname device \<notin> dom (hostname_index r') \<and>
          py_str str (management_ip device) \<notin> dom (ip_index r') \<and>
          (\<forall>uid now_created now_updated device_data.
              valid_create device_data \<and>
              Some (c_hostname device_data) = hostname device \<and>
              Some (c_management_ip device_data) = management_ip device \<and>
              strip (c_hostname device_data) \<noteq> [] \<and> strip (c_site device_data) \<noteq> [] \<longrightarrow>
              (\<exists>new r''. add str uid now_created now_updated device_data r' = (Inr new, r'') \<and>
                  dev_id new = uid \<and> (uid \<notin> issued \<longrightarrow> dev_id new \<noteq> device_id)))))"
proof (intro conjI impI allI)
  assume "device_id \<notin> fst ` set (devices r)"
  then show "delete str device_id r = (Inr False, r)"
    by (simp add: delete_absent map_of_None_iff)
next
  fix device
  assume a: "reachable str issued r \<and> lockstep str r \<and> map_of (devices r) device_id = Some device"
  let ?r' = "r\<lparr>devices := AList.delete device_id (devices r),
               hostname_index := (hostname_index r)(hostname device := None),
               ip_index := (ip_index r)(py_str str (management_ip device) := None)\<rparr>"
  have del: "delete str device_id r = (Inr True, ?r')"
    using a by (simp add: delete_present)
  have gone: "device_id \<notin> fst ` set (devices ?r')"
    using map_of_None_iff [of "AList.delete device_id (devices r)" device_id]
    by (simp add: delete_conv')
  have "device_id \<in> fst ` set (devices r)"
    using a by (metis map_of_None_iff option.distinct(1))
  then have issued: "device_id \<in> issued"
    using a reachable_issued by blast
  have again: "\<exists>new r''. add str uid now_created now_updated device_data ?r' = (Inr new, r'') \<and>
                  dev_id new = uid \<and> (uid \<notin> issued \<longrightarrow> dev_id new \<noteq> device_id)"
    if p: "valid_create device_data \<and>
           Some (c_hostname device_data) = hostname device \<and>
           Some (c_management_ip device_data) = management_ip device \<and>
           strip (c_hostname device_data) \<noteq> [] \<and> strip (c_site device_data) \<noteq> []"
    for uid now_created now_updated device_data
  proof -
    have ip: "str (c_management_ip device_data) = py_str str (management_ip device)"
      using p by (metis py_str_def option.simps(5))
    have "add str uid now_created now_updated device_data ?r' =
       (Inr \<lparr>dev_id = uid, hostname = Some (strip (c_hostname device_data)),
              management_ip = Some (c_management_ip device_data),
              platform = Some (c_platform device_data), role = Some (c_role device_data),
              site = Some (strip (c_site device_data)),
              created_at = now_created, updated_at = now_updated\<rparr>,
        ?r'\<lparr>devices := AList.update uid
               \<lparr>dev_id = uid, hostname = Some (strip (c_hostname device_data)),
                management_ip = Some (c_management_ip device_data),
                platform = Some (c_platform device_data), role = Some (c_role device_data),
                site = Some (strip (c_site device_data)),
                created_at = now_created, updated_at = now_updated\<rparr>
               (devices ?r'),
           hostname_index := (hostname_index ?r')(Some (strip (c_hostname device_data)) \<mapsto> uid),
           ip_index := (ip_index ?r')(str (c_management_ip device_data) \<mapsto> uid)\<rparr>)"
      by (rule add_succeeds) (use p ip in auto)
    moreover have "uid \<notin> issued \<longrightarrow> uid \<noteq> device_id" using issued by blast
    ultimately show ?thesis by simp
  qed
  show "\<exists>r'. delete str device_id r = (Inr True, r') \<and>
          devices r' = AList.delete device_id (devices r) \<and>
          hostname_index r' = (hostname_index r)(hostname device := None) \<and>
          ip_index r' = (ip_index r)(py_str str (management_ip device) := None) \<and>
          device_id \<notin> fst ` set (devices r') \<and>
          hostname device \<notin> dom (hostname_index r') \<and>
          py_str str (management_ip device) \<notin> dom (ip_index r') \<and>
          (\<forall>uid now_created now_updated device_data.
              valid_create device_data \<and>
              Some (c_hostname device_data) = hostname device \<and>
              Some (c_management_ip device_data) = management_ip device \<and>
              strip (c_hostname device_data) \<noteq> [] \<and> strip (c_site device_data) \<noteq> [] \<longrightarrow>
              (\<exists>new r''. add str uid now_created now_updated device_data r' = (Inr new, r'') \<and>
                  dev_id new = uid \<and> (uid \<notin> issued \<longrightarrow> dev_id new \<noteq> device_id)))"
  proof (intro exI [of _ ?r'] conjI allI impI)
    show "delete str device_id r = (Inr True, ?r')" by (rule del)
    show "device_id \<notin> fst ` set (devices ?r')" by (rule gone)
    show "\<exists>new r''. add str uid now_created now_updated device_data ?r' = (Inr new, r'') \<and>
                  dev_id new = uid \<and> (uid \<notin> issued \<longrightarrow> dev_id new \<noteq> device_id)"
      if "valid_create device_data \<and>
           Some (c_hostname device_data) = hostname device \<and>
           Some (c_management_ip device_data) = management_ip device \<and>
           strip (c_hostname device_data) \<noteq> [] \<and> strip (c_site device_data) \<noteq> []"
      for uid now_created now_updated device_data
      using that by (rule again)
  qed simp_all
qed

theorem delete_frees_keys_witness:
  "delete text_ip 7 repo2 = (Inr False, repo2) \<and>
   fst (delete text_ip 2 repo2) = Inr True \<and>
   (\<exists>new r''. add text_ip 3 300 300 leaf1 (snd (delete text_ip 2 repo2)) = (Inr new, r'') \<and>
       dev_id new = 3 \<and> dev_id new \<noteq> 2)"
proof -
  have absent: "7 \<notin> fst ` set (devices repo2)"
    and stored: "map_of (devices repo2) 2 = Some leaf1_device"
    by (simp_all add: repo2_eq)
  have fresh: "3 \<notin> {2, 1::nat}" by simp
  have payload: "valid_create leaf1 \<and>
      Some (c_hostname leaf1) = hostname leaf1_device \<and>
      Some (c_management_ip leaf1) = management_ip leaf1_device \<and>
      strip (c_hostname leaf1) \<noteq> [] \<and> strip (c_site leaf1) \<noteq> []"
    by (simp add: valid_create_def leaf1_def leaf1_device_def strip_literals)
  note t = delete_frees_keys [of _ repo2 text_ip "{2, 1}"]
  have "delete text_ip 7 repo2 = (Inr False, repo2)"
    using t [of 7] absent by blast
  moreover obtain r' where r': "delete text_ip 2 repo2 = (Inr True, r')"
    and again: "\<forall>uid now_created now_updated device_data.
              valid_create device_data \<and>
              Some (c_hostname device_data) = hostname leaf1_device \<and>
              Some (c_management_ip device_data) = management_ip leaf1_device \<and>
              strip (c_hostname device_data) \<noteq> [] \<and> strip (c_site device_data) \<noteq> [] \<longrightarrow>
              (\<exists>new r''. add text_ip uid now_created now_updated device_data r' = (Inr new, r'') \<and>
                  dev_id new = uid \<and> (uid \<notin> {2, 1} \<longrightarrow> dev_id new \<noteq> 2))"
    using t [of 2] reachable_repo2 lockstep_repo2 stored by blast
  moreover have "\<exists>new r''. add text_ip 3 300 300 leaf1 r' = (Inr new, r'') \<and>
                  dev_id new = 3 \<and> dev_id new \<noteq> 2"
    using again payload fresh by blast
  ultimately show ?thesis by simp
qed

end
